theory Spec2Isabelle
  imports Complex_Main
begin

section \<open>JavaScript numbers and values\<close>

text \<open>
  The usage controller (\<^verbatim>\<open>packages/api/src/controllers/usage.ts\<close>) computes with
  JavaScript numbers. A number is modelled as a rational (every finite double is one),
  \<^verbatim>\<open>NaN\<close>, or one of the two infinities; arithmetic on the finite part is exact, so
  rounding and overflow of doubles are outside the model, as is the sign of zero.
  A value read from a parsed JSON object is \<^verbatim>\<open>undefined\<close> (the property is missing),
  \<^verbatim>\<open>null\<close>, or a number.
\<close>

datatype number = NaN | Num rat | PInf | NInf

datatype jsval = JUndefined | JNull | JNumber number

text \<open>\<^verbatim>\<open>ToNumber\<close>: \<^verbatim>\<open>undefined\<close> becomes \<^verbatim>\<open>NaN\<close>, \<^verbatim>\<open>null\<close> becomes \<^verbatim>\<open>0\<close>.\<close>

fun toNumber :: "jsval \<Rightarrow> number" where
  "toNumber JUndefined = NaN"
| "toNumber JNull = Num 0"
| "toNumber (JNumber n) = n"

text \<open>The binary operator \<^verbatim>\<open>-\<close> on numbers.\<close>

fun num_sub :: "number \<Rightarrow> number \<Rightarrow> number" where
  "num_sub NaN y = NaN"
| "num_sub x NaN = NaN"
| "num_sub (Num x) (Num y) = Num (x - y)"
| "num_sub (Num x) PInf = NInf"
| "num_sub (Num x) NInf = PInf"
| "num_sub PInf PInf = NaN"
| "num_sub PInf y = PInf"
| "num_sub NInf NInf = NaN"
| "num_sub NInf y = NInf"

text \<open>
  The binary operator \<^verbatim>\<open>/\<close> on numbers. A finite non-zero number divided by zero is an
  infinity, and \<^verbatim>\<open>0 / 0\<close> is \<^verbatim>\<open>NaN\<close>: division never throws.
\<close>

fun num_div :: "number \<Rightarrow> number \<Rightarrow> number" where
  "num_div NaN y = NaN"
| "num_div x NaN = NaN"
| "num_div (Num x) (Num y) =
     (if y = 0 then (if x = 0 then NaN else if 0 < x then PInf else NInf) else Num (x / y))"
| "num_div (Num x) y = Num 0"
| "num_div PInf (Num y) = (if y < 0 then NInf else PInf)"
| "num_div NInf (Num y) = (if y < 0 then PInf else NInf)"
| "num_div x y = NaN"

text \<open>The binary operator \<^verbatim>\<open>*\<close> on numbers.\<close>

fun num_mul :: "number \<Rightarrow> number \<Rightarrow> number" where
  "num_mul NaN y = NaN"
| "num_mul x NaN = NaN"
| "num_mul (Num x) (Num y) = Num (x * y)"
| "num_mul (Num x) PInf = (if x = 0 then NaN else if 0 < x then PInf else NInf)"
| "num_mul (Num x) NInf = (if x = 0 then NaN else if 0 < x then NInf else PInf)"
| "num_mul PInf (Num y) = (if y = 0 then NaN else if 0 < y then PInf else NInf)"
| "num_mul NInf (Num y) = (if y = 0 then NaN else if 0 < y then NInf else PInf)"
| "num_mul PInf PInf = PInf"
| "num_mul NInf NInf = PInf"
| "num_mul x y = NInf"

text \<open>\<^verbatim>\<open>Math.max\<close> of two numbers: \<^verbatim>\<open>NaN\<close> if either argument is \<^verbatim>\<open>NaN\<close>.\<close>

fun math_max :: "number \<Rightarrow> number \<Rightarrow> number" where
  "math_max NaN y = NaN"
| "math_max x NaN = NaN"
| "math_max PInf y = PInf"
| "math_max x PInf = PInf"
| "math_max NInf y = y"
| "math_max x NInf = x"
| "math_max (Num x) (Num y) = Num (max x y)"

section \<open>Strings\<close>

text \<open>
  \<^verbatim>\<open>String.prototype.toLowerCase\<close> on the ASCII letters. The three names the
  controller compares with contain ASCII letters only, and no character outside ASCII
  lower-cases to one of their letters.
\<close>

definition toLowerChar :: "char \<Rightarrow> char" where
  "toLowerChar c =
     (case map_of (zip ''ABCDEFGHIJKLMNOPQRSTUVWXYZ'' ''abcdefghijklmnopqrstuvwxyz'') c of
        Some d \<Rightarrow> d
      | None \<Rightarrow> c)"

definition toLowerCase :: "string \<Rightarrow> string" where
  "toLowerCase s = map toLowerChar s"

text \<open>
  Two characters are the same letter up to case when they are equal or one is the capital
  of the other; two strings are equal ignoring case when they agree so position by
  position.
\<close>

definition capitalOf :: "char \<Rightarrow> char \<Rightarrow> bool" where
  "capitalOf C c = ((C, c) \<in> set (zip ''ABCDEFGHIJKLMNOPQRSTUVWXYZ'' ''abcdefghijklmnopqrstuvwxyz''))"

definition eqIgnoreCase :: "string \<Rightarrow> string \<Rightarrow> bool" where
  "eqIgnoreCase s t = list_all2 (\<lambda>c d. c = d \<or> capitalOf c d \<or> capitalOf d c) s t"

section \<open>Plans and their limits\<close>

text \<open>
  A product of the \<^verbatim>\<open>products\<close> table carries an optional list \<^verbatim>\<open>usage\<close> of line items,
  each with a \<^verbatim>\<open>name\<close> and a \<^verbatim>\<open>limit\<close>; a line item without a limit has
  \<^verbatim>\<open>item.limit === undefined\<close>, which is \<open>None\<close> here. A lookup in the table that
  finds nothing gives an undefined product, \<open>None\<close> as well.
\<close>

record item =
  name :: string
  limit :: "rat option"

record product =
  usage :: "item list option"

text \<open>
  The local object \<^verbatim>\<open>limits\<close>: it starts as \<^verbatim>\<open>{}\<close>, so each of its three properties is
  undefined until the scan assigns it. The delivery limit is kept under \<^verbatim>\<open>streaming\<close>.
\<close>

record limits =
  transcoding :: "rat option"
  streaming :: "rat option"
  storage :: "rat option"

definition noLimits :: limits where
  "noLimits = \<lparr>transcoding = None, streaming = None, storage = None\<rparr>"

text \<open>The body of the \<^verbatim>\<open>forEach\<close> callback: three independent tests, in this order.\<close>

definition assignLimit :: "item \<Rightarrow> limits \<Rightarrow> limits" where
  "assignLimit it l =
     (let l1 = (if toLowerCase (name it) = ''transcoding'' then l\<lparr>transcoding := limit it\<rparr> else l);
          l2 = (if toLowerCase (name it) = ''delivery'' then l1\<lparr>streaming := limit it\<rparr> else l1);
          l3 = (if toLowerCase (name it) = ''storage'' then l2\<lparr>storage := limit it\<rparr> else l2)
      in l3)"

text \<open>
  The scan both calculators start with:
  \<^verbatim>\<open>if (product?.usage) { product.usage.forEach(...) }\<close>.
\<close>

definition scanLimits :: "product option \<Rightarrow> limits" where
  "scanLimits p =
     (case p of
        None \<Rightarrow> noLimits
      | Some pr \<Rightarrow> (case usage pr of
                     None \<Rightarrow> noLimits
                   | Some items \<Rightarrow> fold assignLimit items noLimits))"

section \<open>The two calculators\<close>

text \<open>
  The usage aggregate returned by the metering service, the over-usage report and the
  percentage report have the same three properties; the aggregate holds values as parsed,
  the reports hold numbers. An aggregate that is \<^verbatim>\<open>undefined\<close> or \<^verbatim>\<open>null\<close> is \<open>None\<close>.
\<close>

record 'v usageMins =
  TotalUsageMins :: 'v
  DeliveryUsageMins :: 'v
  StorageUsageMins :: 'v

text \<open>\<^verbatim>\<open>usage?.X\<close>: undefined when the aggregate is.\<close>

definition optChain :: "jsval usageMins option \<Rightarrow> (jsval usageMins \<Rightarrow> jsval) \<Rightarrow> jsval" where
  "optChain u f = (case u of None \<Rightarrow> JUndefined | Some a \<Rightarrow> f a)"

text \<open>\<^verbatim>\<open>limits.x || 0\<close>: an undefined limit and the limit \<^verbatim>\<open>0\<close> are falsy.\<close>

definition orZero :: "rat option \<Rightarrow> rat" where
  "orZero l = (case l of None \<Rightarrow> 0 | Some x \<Rightarrow> (if x = 0 then 0 else x))"

definition overUsageOf :: "limits \<Rightarrow> jsval usageMins option \<Rightarrow> number usageMins" where
  "overUsageOf l u =
     \<lparr>TotalUsageMins =
        math_max (num_sub (toNumber (optChain u TotalUsageMins)) (Num (orZero (transcoding l)))) (Num 0),
      DeliveryUsageMins =
        math_max (num_sub (toNumber (optChain u DeliveryUsageMins)) (Num (orZero (streaming l)))) (Num 0),
      StorageUsageMins =
        math_max (num_sub (toNumber (optChain u StorageUsageMins)) (Num (orZero (storage l)))) (Num 0)\<rparr>"

definition calculateOverUsage :: "product option \<Rightarrow> jsval usageMins option \<Rightarrow> number usageMins" where
  "calculateOverUsage p u = overUsageOf (scanLimits p) u"

text \<open>
  \<^verbatim>\<open>limits.x && limits.x !== 0 ? Math.max((usage?.X / limits.x) * 100, 0) : 0\<close>
  for one metric.
\<close>

definition percentOf :: "rat option \<Rightarrow> jsval \<Rightarrow> number" where
  "percentOf l v =
     (case l of
        None \<Rightarrow> Num 0
      | Some x \<Rightarrow>
          (if x \<noteq> 0 \<and> x \<noteq> 0
           then math_max (num_mul (num_div (toNumber v) (Num x)) (Num 100)) (Num 0)
           else Num 0))"

definition usagePercentageOf :: "limits \<Rightarrow> jsval usageMins option \<Rightarrow> number usageMins" where
  "usagePercentageOf l u =
     \<lparr>TotalUsageMins = percentOf (transcoding l) (optChain u TotalUsageMins),
      DeliveryUsageMins = percentOf (streaming l) (optChain u DeliveryUsageMins),
      StorageUsageMins = percentOf (storage l) (optChain u StorageUsageMins)\<rparr>"

definition getUsagePercentageOfLimit ::
  "product option \<Rightarrow> jsval usageMins option \<Rightarrow> number usageMins" where
  "getUsagePercentageOfLimit p u = usagePercentageOf (scanLimits p) u"

section \<open>The handlers and their collaborators\<close>

text \<open>
  A time bound of a request is a query-string value (a string, or undefined when the
  parameter is missing) until a handler replaces it by a number: the \<^verbatim>\<open>date\<close> of a
  cached row or a value of \<^verbatim>\<open>+new Date(...)\<close>. The test \<^verbatim>\<open>!x\<close> holds for
  \<^verbatim>\<open>undefined\<close>, the empty string and \<^verbatim>\<open>0\<close>.
\<close>

datatype tval = TUndefined | TStr string | TNum int

fun truthy :: "tval \<Rightarrow> bool" where
  "truthy TUndefined = False"
| "truthy (TStr s) = (s \<noteq> [])"
| "truthy (TNum n) = (n \<noteq> 0)"

definition ofQuery :: "string option \<Rightarrow> tval" where
  "ofQuery p = (case p of None \<Rightarrow> TUndefined | Some s \<Rightarrow> TStr s)"

text \<open>\<^verbatim>\<open>req.query\<close>, with the parameters the handlers read.\<close>

record query =
  fromTime :: "string option"
  toTime :: "string option"
  newUsageReport :: "string option"
  userId :: "string option"

text \<open>
  A row of the usage history: the handlers read its \<^verbatim>\<open>id\<close> and its \<^verbatim>\<open>date\<close>; the other
  properties are carried along. What the cache stores for a row is
  \<^verbatim>\<open>{ kind: "usage", ...row }\<close>.
\<close>

record usageRow =
  row_id :: string
  date :: int
  others :: "(string \<times> jsval) list"

record doc =
  kind :: string
  row :: usageRow

record ingest =
  origin :: string

datatype error = Rejected string | TypeError | HeadersSent

datatype body =
    BReport string
  | BHistory "usageRow list"
  | BUsage "jsval usageMins option"
  | BError string

text \<open>
  What a handler does to the outside, in order: the calls to its collaborators with their
  arguments, the reads and writes of the cache, and what it hands to the response.
  \<open>CallDbUsageFind\<close> carries the options \<^verbatim>\<open>limit\<close>, \<^verbatim>\<open>order\<close> and \<^verbatim>\<open>useReplica\<close> (the
  filter is always \<^verbatim>\<open>{}\<close>); the three history and usage calls carry \<^verbatim>\<open>from\<close> and \<^verbatim>\<open>to\<close>;
  \<open>CallFetch\<close> carries the base url, the three query parameters \<^verbatim>\<open>from\<close>, \<^verbatim>\<open>to\<close>,
  \<^verbatim>\<open>userId\<close>, and the bearer token.
\<close>

datatype event =
    CallReportUsage
  | CallDbUsageFind nat string bool
  | CallUsageHistory tval tval bool
  | CallCachedUsageHistory tval tval bool
  | CallGetIngest
  | CallFetch string tval tval string string
  | StoreGet string
  | StoreReplace doc
  | StoreCreate doc
  | ResStatus nat
  | ResJson body

text \<open>
  The collaborators of one request, which are not part of the controller: the clock
  (\<^verbatim>\<open>+new Date()\<close> and \<^verbatim>\<open>+new Date(2020, 0)\<close>, the latter depending on the time zone of
  the process), \<^verbatim>\<open>reportUsage\<close>, the two tables \<^verbatim>\<open>db.usage\<close> and \<^verbatim>\<open>db.stream\<close>,
  \<^verbatim>\<open>req.getIngest\<close>, \<^verbatim>\<open>fetch\<close> followed by \<^verbatim>\<open>res.json()\<close>, and \<^verbatim>\<open>req.token.id\<close>.
  Each call either answers or rejects; \<open>db_usage_find\<close> gives component \<^verbatim>\<open>[0]\<close> of
  what \<^verbatim>\<open>db.usage.find\<close> resolves to.
\<close>

record env =
  now :: int
  jan2020 :: int
  reportUsage :: "error + string"
  db_usage_find :: "nat \<Rightarrow> string \<Rightarrow> bool \<Rightarrow> error + usageRow list"
  usageHistory :: "tval \<Rightarrow> tval \<Rightarrow> bool \<Rightarrow> error + usageRow list"
  cachedUsageHistory :: "tval \<Rightarrow> tval \<Rightarrow> bool \<Rightarrow> error + usageRow list"
  getIngest :: "error + ingest list"
  fetch :: "string \<Rightarrow> tval \<Rightarrow> tval \<Rightarrow> string \<Rightarrow> string \<Rightarrow> error + jsval usageMins option"
  token_id :: string

text \<open>
  A computation of a handler: the events so far, and either the error that ended it or
  its value. No handler catches an error, so the first rejected call ends the handler.
\<close>

type_synonym 'x io = "event list \<times> (error + 'x)"

definition ret :: "'x \<Rightarrow> 'x io" where
  "ret x = ([], Inr x)"

definition emit :: "event list \<Rightarrow> unit io" where
  "emit es = (es, Inr ())"

definition call :: "event \<Rightarrow> error + 'x \<Rightarrow> 'x io" where
  "call e r = ([e], r)"

definition andThen :: "'x io \<Rightarrow> ('x \<Rightarrow> 'y io) \<Rightarrow> 'y io" where
  "andThen m f =
     (case m of
        (es, Inl e) \<Rightarrow> (es, Inl e)
      | (es, Inr x) \<Rightarrow> (case f x of (es', r) \<Rightarrow> (es @ es', r)))"

subsection \<open>The cache\<close>

text \<open>
  Modelled from the spec: the persistent store behind \<^verbatim>\<open>req.store\<close> (\<^verbatim>\<open>../store\<close> is not
  among the sources). The spec gives \<^verbatim>\<open>get(key) -> record|absent\<close>,
  \<^verbatim>\<open>create(record) -> void\<close> and \<^verbatim>\<open>replace(record) -> void\<close>, "keyed by a stable string
  id per stored kind": a record is kept under \<^verbatim>\<open>kind/id\<close>, which is the key the handler
  reads with (\<^verbatim>\<open>usage/${row.id}\<close>).
\<close>

type_synonym store = "string \<rightharpoonup> doc"

definition store_key :: "doc \<Rightarrow> string" where
  "store_key d = kind d @ ''/'' @ row_id (row d)"

definition store_get :: "store \<Rightarrow> string \<Rightarrow> doc option" where
  "store_get s k = s k"

definition store_create :: "store \<Rightarrow> doc \<Rightarrow> store" where
  "store_create s d = s(store_key d \<mapsto> d)"

definition store_replace :: "store \<Rightarrow> doc \<Rightarrow> store" where
  "store_replace s d = s(store_key d \<mapsto> d)"

subsection \<open>The default window of the query endpoints\<close>






subsection \<open>The update endpoint\<close>

text \<open>
  \<^verbatim>\<open>if (newUsageReport === "true") { ...reportUsage...; res.status(200); res.json(...) }\<close>:
  there is no \<^verbatim>\<open>return\<close> in this block.
\<close>

definition reportPhase :: "env \<Rightarrow> query \<Rightarrow> unit io" where
  "reportPhase e q =
     (if newUsageReport q = Some ''true''
      then andThen (call CallReportUsage (reportUsage e))
             (\<lambda>newUsageResult. emit [ResStatus 200, ResJson (BReport newUsageResult)])
      else ret ())"

text \<open>
  \<^verbatim>\<open>if (!fromTime) { rows = (await db.usage.find({}, {limit: 1, order: ..., useReplica: true}))[0];
  fromTime = rows.length ? rows[0].date : +new Date(2020, 0) }\<close>
\<close>

definition resolveFrom :: "env \<Rightarrow> tval \<Rightarrow> tval io" where
  "resolveFrom e f =
     (if \<not> truthy f
      then andThen (call (CallDbUsageFind 1 ''data->>'date' DESC'' True)
                      (db_usage_find e 1 ''data->>'date' DESC'' True))
             (\<lambda>rows. ret (case rows of [] \<Rightarrow> TNum (jan2020 e) | r # _ \<Rightarrow> TNum (date r)))
      else ret f)"

text \<open>\<^verbatim>\<open>if (!toTime) { toTime = +new Date(); }\<close>\<close>

definition resolveTo :: "env \<Rightarrow> tval \<Rightarrow> tval" where
  "resolveTo e t = (if \<not> truthy t then TNum (now e) else t)"

text \<open>
  The loop \<^verbatim>\<open>for (const row of usageHistory)\<close>: read the cache at \<^verbatim>\<open>usage/${row.id}\<close>,
  replace when something is there, create otherwise.
\<close>

fun storeUsage :: "usageRow list \<Rightarrow> store \<Rightarrow> event list \<times> store" where
  "storeUsage [] s = ([], s)"
| "storeUsage (r # rs) s =
     (let k = ''usage/'' @ row_id r; d = \<lparr>kind = ''usage'', row = r\<rparr>
      in case store_get s k of
           Some dbRow \<Rightarrow>
             (case storeUsage rs (store_replace s d) of
                (es, s') \<Rightarrow> (StoreGet k # StoreReplace d # es, s'))
         | None \<Rightarrow>
             (case storeUsage rs (store_create s d) of
                (es, s') \<Rightarrow> (StoreGet k # StoreCreate d # es, s')))"

text \<open>
  The response object of Express. \<^verbatim>\<open>res.status\<close> only sets the status code.
  \<^verbatim>\<open>res.json\<close> sends the response, and the headers of a response are sent once: on a
  response that has sent already, \<^verbatim>\<open>res.json\<close> throws \<^verbatim>\<open>ERR_HTTP_HEADERS_SENT\<close>, which
  rejects the handler. A response has sent when an earlier event of the request is a
  \<open>ResJson\<close>; the call that throws is recorded as an event all the same. Every other
  \<^verbatim>\<open>res.json\<close> of the handlers here is the first of its request.
\<close>

fun isResJson :: "event \<Rightarrow> bool" where
  "isResJson (ResJson b) = True"
| "isResJson ev = False"

definition headersSent :: "event list \<Rightarrow> bool" where
  "headersSent es = list_ex isResJson es"

definition res_json :: "event list \<Rightarrow> body \<Rightarrow> event list \<times> error option" where
  "res_json before b = ([ResJson b], if headersSent before then Some HeadersSent else None)"

text \<open>
  \<^verbatim>\<open>app.post("/update")\<close>: the events, the cache afterwards, and the error that ended the
  handler, if a collaborator rejected or the response threw.
\<close>

definition fetchPhase :: "env \<Rightarrow> query \<Rightarrow> usageRow list io" where
  "fetchPhase e q =
     andThen (reportPhase e q) (\<lambda>_.
     andThen (resolveFrom e (ofQuery (fromTime q))) (\<lambda>f.
     call (CallUsageHistory f (resolveTo e (ofQuery (toTime q))) True)
          (usageHistory e f (resolveTo e (ofQuery (toTime q))) True)))"

definition post_update :: "env \<Rightarrow> query \<Rightarrow> store \<Rightarrow> event list \<times> store \<times> error option" where
  "post_update e q s =
     (case fetchPhase e q of
        (es, Inl err) \<Rightarrow> (es, s, Some err)
      | (es, Inr rows) \<Rightarrow>
          (case storeUsage rows s of
             (es', s') \<Rightarrow>
               (case res_json (es @ es' @ [ResStatus 200]) (BHistory rows) of
                  (ej, err) \<Rightarrow> (es @ es' @ [ResStatus 200] @ ej, s', err))))"

section \<open>Facts about the numbers and the scan\<close>

lemma num_sub_zero: "num_sub x (Num 0) = x"
  by (cases x) simp_all

lemma orZero_eq: "orZero l = (case l of None \<Rightarrow> 0 | Some x \<Rightarrow> x)"
  by (simp add: orZero_def split: option.split)

lemma over_total:
  "TotalUsageMins (calculateOverUsage p u) =
     math_max (num_sub (toNumber (optChain u TotalUsageMins))
                       (Num (case transcoding (scanLimits p) of None \<Rightarrow> 0 | Some x \<Rightarrow> x))) (Num 0)"
  by (simp add: calculateOverUsage_def overUsageOf_def orZero_eq)

lemma over_delivery:
  "DeliveryUsageMins (calculateOverUsage p u) =
     math_max (num_sub (toNumber (optChain u DeliveryUsageMins))
                       (Num (case streaming (scanLimits p) of None \<Rightarrow> 0 | Some x \<Rightarrow> x))) (Num 0)"
  by (simp add: calculateOverUsage_def overUsageOf_def orZero_eq)

lemma over_storage:
  "StorageUsageMins (calculateOverUsage p u) =
     math_max (num_sub (toNumber (optChain u StorageUsageMins))
                       (Num (case storage (scanLimits p) of None \<Rightarrow> 0 | Some x \<Rightarrow> x))) (Num 0)"
  by (simp add: calculateOverUsage_def overUsageOf_def orZero_eq)

lemmas over_fields = over_total over_delivery over_storage

lemma optChain_simps:
  "optChain None f = JUndefined" "optChain (Some a) f = f a"
  by (simp_all add: optChain_def)

lemma percentOf_zero: "l = None \<or> l = Some 0 \<Longrightarrow> percentOf l v = Num 0"
  by (auto simp: percentOf_def)

lemma percentOf_nonzero:
  "x \<noteq> 0 \<Longrightarrow> percentOf (Some x) v = math_max (num_mul (num_div (toNumber v) (Num x)) (Num 100)) (Num 0)"
  by (simp add: percentOf_def)

lemma percentOf_num:
  "x \<noteq> 0 \<Longrightarrow> percentOf (Some x) (JNumber (Num r)) = Num (max (r / x * 100) 0)"
  by (simp add: percentOf_def)

lemma pct_fields:
  "TotalUsageMins (getUsagePercentageOfLimit p u) = percentOf (transcoding (scanLimits p)) (optChain u TotalUsageMins)"
  "DeliveryUsageMins (getUsagePercentageOfLimit p u) = percentOf (streaming (scanLimits p)) (optChain u DeliveryUsageMins)"
  "StorageUsageMins (getUsagePercentageOfLimit p u) = percentOf (storage (scanLimits p)) (optChain u StorageUsageMins)"
  by (simp_all add: getUsagePercentageOfLimit_def usagePercentageOf_def)

lemma scan_eval:
  "scanLimits (Some \<lparr>usage = Some [\<lparr>name = ''Transcoding'', limit = Some 1000\<rparr>,
                                     \<lparr>name = ''Storage'', limit = Some 0\<rparr>]\<rparr>)
     = \<lparr>transcoding = Some 1000, streaming = None, storage = Some 0\<rparr>"
  by (simp add: scanLimits_def noLimits_def assignLimit_def toLowerCase_def toLowerChar_def)

subsection \<open>Lower-casing decides equality up to case\<close>

lemma lower_table:
  "map_of (zip ''ABCDEFGHIJKLMNOPQRSTUVWXYZ'' ''abcdefghijklmnopqrstuvwxyz'') c = Some d
     \<longleftrightarrow> capitalOf c d"
  unfolding capitalOf_def
  by (rule map_of_eq_Some_iff) simp

lemma capital_not_lower: "capitalOf c d \<Longrightarrow> capitalOf d e \<Longrightarrow> False"
  unfolding capitalOf_def by auto

lemma capitalOf_lower: "capitalOf c d \<Longrightarrow> toLowerChar c = d"
  by (simp add: toLowerChar_def lower_table [symmetric])

lemma toLowerChar_cases:
  "capitalOf c (toLowerChar c) \<or> (toLowerChar c = c \<and> (\<forall>d. \<not> capitalOf c d))"
proof (cases "map_of (zip ''ABCDEFGHIJKLMNOPQRSTUVWXYZ'' ''abcdefghijklmnopqrstuvwxyz'') c")
  case None
  then have "toLowerChar c = c" by (simp add: toLowerChar_def)
  moreover from None have "\<forall>d. \<not> capitalOf c d" by (simp add: lower_table [symmetric])
  ultimately show ?thesis by simp
next
  case (Some e)
  then have "toLowerChar c = e" by (simp add: toLowerChar_def)
  moreover from Some have "capitalOf c e" by (rule lower_table [THEN iffD1])
  ultimately show ?thesis by simp
qed

lemma toLowerChar_lower:
  assumes "toLowerChar d = d"
  shows "(toLowerChar c = d) = (c = d \<or> capitalOf c d \<or> capitalOf d c)"
proof -
  have no: "\<not> capitalOf d e" for e
  proof
    assume h: "capitalOf d e"
    then have "e = d" using capitalOf_lower [OF h] assms by simp
    with h capital_not_lower show False by blast
  qed
  show ?thesis
    using toLowerChar_cases [of c] capitalOf_lower [of c d] assms no by auto
qed

lemma toLowerCase_eqIgnoreCase:
  "toLowerCase t = t \<Longrightarrow> (toLowerCase s = t) = eqIgnoreCase s t"
proof (induction s arbitrary: t)
  case Nil
  then show ?case by (auto simp: toLowerCase_def eqIgnoreCase_def)
next
  case (Cons c s)
  show ?case
  proof (cases t)
    case Nil
    then show ?thesis by (simp add: toLowerCase_def eqIgnoreCase_def)
  next
    case (Cons d t')
    with Cons.prems have d: "toLowerChar d = d" and t': "toLowerCase t' = t'"
      by (simp_all add: toLowerCase_def)
    from Cons.IH [OF t'] toLowerChar_lower [OF d, of c] Cons show ?thesis
      by (simp add: toLowerCase_def eqIgnoreCase_def)
  qed
qed

lemma names_lower:
  "toLowerCase ''transcoding'' = ''transcoding''"
  "toLowerCase ''delivery'' = ''delivery''"
  "toLowerCase ''storage'' = ''storage''"
  by (simp_all add: toLowerCase_def toLowerChar_def)

lemma match_names:
  "(toLowerCase n = ''transcoding'') = eqIgnoreCase n ''transcoding''"
  "(toLowerCase n = ''delivery'') = eqIgnoreCase n ''delivery''"
  "(toLowerCase n = ''storage'') = eqIgnoreCase n ''storage''"
  by (rule toLowerCase_eqIgnoreCase, rule names_lower)+

lemma assignLimit_fields:
  "transcoding (assignLimit it l) = (if eqIgnoreCase (name it) ''transcoding'' then limit it else transcoding l)"
  "streaming (assignLimit it l) = (if eqIgnoreCase (name it) ''delivery'' then limit it else streaming l)"
  "storage (assignLimit it l) = (if eqIgnoreCase (name it) ''storage'' then limit it else storage l)"
  by (simp_all add: assignLimit_def Let_def match_names)

lemma fold_assignLimit:
  "transcoding (fold assignLimit items l) =
     (if filter (\<lambda>i. eqIgnoreCase (name i) ''transcoding'') items = [] then transcoding l
      else limit (last (filter (\<lambda>i. eqIgnoreCase (name i) ''transcoding'') items)))"
  "streaming (fold assignLimit items l) =
     (if filter (\<lambda>i. eqIgnoreCase (name i) ''delivery'') items = [] then streaming l
      else limit (last (filter (\<lambda>i. eqIgnoreCase (name i) ''delivery'') items)))"
  "storage (fold assignLimit items l) =
     (if filter (\<lambda>i. eqIgnoreCase (name i) ''storage'') items = [] then storage l
      else limit (last (filter (\<lambda>i. eqIgnoreCase (name i) ''storage'') items)))"
  by (induction items rule: rev_induct) (simp_all add: assignLimit_fields)

section \<open>Facts about the handlers\<close>

lemma andThen_simps:
  "andThen (es, Inl err) f = (es, Inl err)"
  "andThen (es, Inr x) f = (es @ fst (f x), snd (f x))"
  by (simp_all add: andThen_def split: prod.split)

lemma andThen_ret: "andThen (ret x) f = f x"
  by (simp add: ret_def andThen_simps)

lemma truthy_ofQuery: "truthy (ofQuery p) = (\<exists>s. p = Some s \<and> s \<noteq> [])"
  by (cases p) (simp_all add: ofQuery_def)

lemma resolveFrom_given:
  "truthy f \<Longrightarrow> resolveFrom e f = ([], Inr f)"
  by (simp add: resolveFrom_def ret_def)

lemma resolveFrom_watermark:
  "\<not> truthy f \<Longrightarrow> db_usage_find e 1 ''data->>'date' DESC'' True = Inr rows \<Longrightarrow>
   resolveFrom e f =
     ([CallDbUsageFind 1 ''data->>'date' DESC'' True],
      Inr (case rows of [] \<Rightarrow> TNum (jan2020 e) | r # _ \<Rightarrow> TNum (date r)))"
  by (simp add: resolveFrom_def call_def andThen_simps ret_def)

lemma resolveFrom_rejected:
  "\<not> truthy f \<Longrightarrow> db_usage_find e 1 ''data->>'date' DESC'' True = Inl err \<Longrightarrow>
   resolveFrom e f = ([CallDbUsageFind 1 ''data->>'date' DESC'' True], Inl err)"
  by (simp add: resolveFrom_def call_def andThen_simps)

lemma fetchPhase_events:
  assumes "reportPhase e q = (es0, Inr ())"
    and "resolveFrom e (ofQuery (fromTime q)) = (fs, Inr f)"
  shows "fetchPhase e q =
           (es0 @ fs @ [CallUsageHistory f (resolveTo e (ofQuery (toTime q))) True],
            usageHistory e f (resolveTo e (ofQuery (toTime q))) True)"
  using assms by (simp add: fetchPhase_def andThen_simps call_def)

lemma post_update_events:
  "\<exists>rest. fst (post_update e q s) = fst (fetchPhase e q) @ rest"
  by (cases "fetchPhase e q") (auto simp: post_update_def res_json_def split: sum.split prod.split)

lemma resolveTo_ofQuery:
  "resolveTo e (ofQuery p) =
     (case p of None \<Rightarrow> TNum (now e) | Some t \<Rightarrow> if t = [] then TNum (now e) else TStr t)"
  by (simp add: resolveTo_def ofQuery_def split: option.split)

lemma storeUsage_snd:
  "snd (storeUsage rows s) =
     s ++ map_of (rev (map (\<lambda>r. (''usage/'' @ row_id r, \<lparr>kind = ''usage'', row = r\<rparr>)) rows))"
proof (induction rows arbitrary: s)
  case Nil
  show ?case by simp
next
  case (Cons r rows)
  let ?m = "map_of (rev (map (\<lambda>r. (''usage/'' @ row_id r, \<lparr>kind = ''usage'', row = r\<rparr>)) rows))"
  let ?s = "s(''usage/'' @ row_id r \<mapsto> \<lparr>kind = ''usage'', row = r\<rparr>)"
  have "snd (storeUsage (r # rows) s) = snd (storeUsage rows ?s)"
    by (simp add: Let_def store_get_def store_create_def store_replace_def
        store_key_def case_prod_beta split: option.split)
  also have "\<dots> = ?s ++ ?m"
    by (rule Cons)
  also have "?s = s ++ [''usage/'' @ row_id r \<mapsto> \<lparr>kind = ''usage'', row = r\<rparr>]"
    by simp
  finally show ?case
    by (simp only: map_add_assoc list.map rev.simps map_of_append map_of.simps fst_conv snd_conv)
qed

lemma storeUsage_idem: "snd (storeUsage rows (snd (storeUsage rows s))) = snd (storeUsage rows s)"
proof -
  have "(s ++ m) ++ m = s ++ m" for m :: store
    by (rule ext) (simp add: map_add_def split: option.split)
  then show ?thesis
    by (simp only: storeUsage_snd)
qed

lemma storeUsage_fresh:
  assumes "r \<in> set rows"
  shows "\<exists>r' \<in> set rows. row_id r' = row_id r
           \<and> snd (storeUsage rows s) (''usage/'' @ row_id r) = Some \<lparr>kind = ''usage'', row = r'\<rparr>"
proof -
  let ?kv = "\<lambda>r. (''usage/'' @ row_id r, \<lparr>kind = ''usage'', row = r\<rparr>)"
  let ?xs = "rev (map ?kv rows)"
  from assms have "''usage/'' @ row_id r \<in> fst ` set ?xs"
    by force
  then obtain d where d: "map_of ?xs (''usage/'' @ row_id r) = Some d"
    by (cases "map_of ?xs (''usage/'' @ row_id r)") (simp_all add: map_of_eq_None_iff)
  from map_of_SomeD [OF d] obtain r' where "r' \<in> set rows" "row_id r' = row_id r"
    "d = \<lparr>kind = ''usage'', row = r'\<rparr>"
    by auto
  with d show ?thesis
    by (auto simp: storeUsage_snd)
qed

lemma storeUsage_other:
  assumes "k \<notin> (\<lambda>r. ''usage/'' @ row_id r) ` set rows"
  shows "snd (storeUsage rows s) k = s k"
proof -
  let ?kv = "\<lambda>r. (''usage/'' @ row_id r, \<lparr>kind = ''usage'', row = r\<rparr>)"
  from assms have "k \<notin> fst ` set (rev (map ?kv rows))"
    by force
  then have "map_of (rev (map ?kv rows)) k = None"
    by (rule map_of_eq_None_iff [THEN iffD2])
  then show ?thesis
    by (simp add: storeUsage_snd map_add_def)
qed

lemma storeUsage_one:
  "storeUsage [r] s =
     (if s (''usage/'' @ row_id r) = None
      then ([StoreGet (''usage/'' @ row_id r), StoreCreate \<lparr>kind = ''usage'', row = r\<rparr>],
            s(''usage/'' @ row_id r \<mapsto> \<lparr>kind = ''usage'', row = r\<rparr>))
      else ([StoreGet (''usage/'' @ row_id r), StoreReplace \<lparr>kind = ''usage'', row = r\<rparr>],
            s(''usage/'' @ row_id r \<mapsto> \<lparr>kind = ''usage'', row = r\<rparr>)))"
  by (auto simp: Let_def store_get_def store_create_def store_replace_def store_key_def)

lemma post_update_store:
  "fetchPhase e q = (es, Inr rows) \<Longrightarrow> fst (snd (post_update e q s)) = snd (storeUsage rows s)"
  by (simp add: post_update_def res_json_def split: prod.split)



lemma storeUsage_writes:
  "length (filter (\<lambda>ev. \<exists>d. ev = StoreReplace d \<or> ev = StoreCreate d) (fst (storeUsage rows s)))
     = length rows"
  by (induction rows arbitrary: s)
     (simp_all add: Let_def case_prod_beta split: option.split)

section \<open>The calculators on the end-to-end scenario\<close>

text \<open>
  \<^bold>\<open>C1\<close>, as the specification states it: with the limits 1000, 2000 and 500 and the usage
  1200, 1500 and 600, the over-usage would be 100, 0 and 100 and the percentages 120, 75
  and 120. The first over-usage figure is not what \<^verbatim>\<open>calculateOverUsage\<close> returns, so the
  statement fails.
\<close>

theorem scenario_as_stated_fails:
  "\<not> (calculateOverUsage
         (Some \<lparr>usage = Some [\<lparr>name = ''transcoding'', limit = Some 1000\<rparr>,
                               \<lparr>name = ''delivery'', limit = Some 2000\<rparr>,
                               \<lparr>name = ''storage'', limit = Some 500\<rparr>]\<rparr>)
         (Some \<lparr>TotalUsageMins = JNumber (Num 1200), DeliveryUsageMins = JNumber (Num 1500),
                StorageUsageMins = JNumber (Num 600)\<rparr>)
       = \<lparr>TotalUsageMins = Num 100, DeliveryUsageMins = Num 0, StorageUsageMins = Num 100\<rparr>
     \<and> getUsagePercentageOfLimit
         (Some \<lparr>usage = Some [\<lparr>name = ''transcoding'', limit = Some 1000\<rparr>,
                               \<lparr>name = ''delivery'', limit = Some 2000\<rparr>,
                               \<lparr>name = ''storage'', limit = Some 500\<rparr>]\<rparr>)
         (Some \<lparr>TotalUsageMins = JNumber (Num 1200), DeliveryUsageMins = JNumber (Num 1500),
                StorageUsageMins = JNumber (Num 600)\<rparr>)
       = \<lparr>TotalUsageMins = Num 120, DeliveryUsageMins = Num 75, StorageUsageMins = Num 120\<rparr>)"
  by (simp add: calculateOverUsage_def overUsageOf_def scanLimits_def noLimits_def
      assignLimit_def toLowerCase_def toLowerChar_def optChain_def orZero_def)

text \<open>
  \<^bold>\<open>C1\<close>, amended: on that plan and that usage \<^verbatim>\<open>calculateOverUsage\<close> returns
  200, 0 and 100 (1200 - 1000 is 200), and \<^verbatim>\<open>getUsagePercentageOfLimit\<close> returns 120,
  75 and 120.
\<close>

theorem scenario_overage_and_percentages:
  "calculateOverUsage
         (Some \<lparr>usage = Some [\<lparr>name = ''transcoding'', limit = Some 1000\<rparr>,
                               \<lparr>name = ''delivery'', limit = Some 2000\<rparr>,
                               \<lparr>name = ''storage'', limit = Some 500\<rparr>]\<rparr>)
         (Some \<lparr>TotalUsageMins = JNumber (Num 1200), DeliveryUsageMins = JNumber (Num 1500),
                StorageUsageMins = JNumber (Num 600)\<rparr>)
       = \<lparr>TotalUsageMins = Num 200, DeliveryUsageMins = Num 0, StorageUsageMins = Num 100\<rparr>
     \<and> getUsagePercentageOfLimit
         (Some \<lparr>usage = Some [\<lparr>name = ''transcoding'', limit = Some 1000\<rparr>,
                               \<lparr>name = ''delivery'', limit = Some 2000\<rparr>,
                               \<lparr>name = ''storage'', limit = Some 500\<rparr>]\<rparr>)
         (Some \<lparr>TotalUsageMins = JNumber (Num 1200), DeliveryUsageMins = JNumber (Num 1500),
                StorageUsageMins = JNumber (Num 600)\<rparr>)
       = \<lparr>TotalUsageMins = Num 120, DeliveryUsageMins = Num 75, StorageUsageMins = Num 120\<rparr>"
  by (simp add: calculateOverUsage_def overUsageOf_def scanLimits_def noLimits_def
      getUsagePercentageOfLimit_def usagePercentageOf_def percentOf_def
      assignLimit_def toLowerCase_def toLowerChar_def optChain_def orZero_def)

section \<open>Missing usage values\<close>

text \<open>
  \<^bold>\<open>C2\<close>, as the specification states it: a missing usage value would count as 0, so
  that with no usage aggregate and a transcoding limit of 1000 the over-usage would be
  \<open>max (0 - 1000) 0\<close>. The controller returns \<^verbatim>\<open>NaN\<close> there, so the statement fails.
\<close>

theorem missing_usage_not_zero:
  "\<not> (TotalUsageMins (calculateOverUsage
          (Some \<lparr>usage = Some [\<lparr>name = ''Transcoding'', limit = Some 1000\<rparr>]\<rparr>) None)
       = Num (max (0 - 1000) 0))"
  by (simp add: over_fields optChain_simps)

text \<open>
  \<^bold>\<open>C2\<close>, amended: \<^verbatim>\<open>calculateOverUsage\<close> returns a report for every product and every
  usage aggregate, but a missing usage value is not defaulted: when the aggregate is absent
  every field of the report is \<^verbatim>\<open>NaN\<close>, and when a metric is missing from the aggregate
  the field of that metric is \<^verbatim>\<open>NaN\<close>. A metric that is a number \<open>u\<close> gives
  \<open>max (u - l) 0\<close>, where \<open>l\<close> is the limit, or 0 when the plan has none.
\<close>

theorem missing_usage_is_NaN:
  "calculateOverUsage p None =
     \<lparr>TotalUsageMins = NaN, DeliveryUsageMins = NaN, StorageUsageMins = NaN\<rparr>
   \<and> (TotalUsageMins u = JUndefined \<longrightarrow> TotalUsageMins (calculateOverUsage p (Some u)) = NaN)
   \<and> (DeliveryUsageMins u = JUndefined \<longrightarrow> DeliveryUsageMins (calculateOverUsage p (Some u)) = NaN)
   \<and> (StorageUsageMins u = JUndefined \<longrightarrow> StorageUsageMins (calculateOverUsage p (Some u)) = NaN)
   \<and> (TotalUsageMins u = JNumber (Num x) \<longrightarrow>
        TotalUsageMins (calculateOverUsage p (Some u)) =
          Num (max (x - (case transcoding (scanLimits p) of None \<Rightarrow> 0 | Some l \<Rightarrow> l)) 0))
   \<and> (DeliveryUsageMins u = JNumber (Num y) \<longrightarrow>
        DeliveryUsageMins (calculateOverUsage p (Some u)) =
          Num (max (y - (case streaming (scanLimits p) of None \<Rightarrow> 0 | Some l \<Rightarrow> l)) 0))
   \<and> (StorageUsageMins u = JNumber (Num z) \<longrightarrow>
        StorageUsageMins (calculateOverUsage p (Some u)) =
          Num (max (z - (case storage (scanLimits p) of None \<Rightarrow> 0 | Some l \<Rightarrow> l)) 0))"
  by (simp add: over_fields optChain_simps calculateOverUsage_def overUsageOf_def orZero_eq)

theorem missing_usage_is_NaN_witness:
  "TotalUsageMins (calculateOverUsage
       (Some \<lparr>usage = Some [\<lparr>name = ''Transcoding'', limit = Some 1000\<rparr>,
                             \<lparr>name = ''Storage'', limit = Some 0\<rparr>]\<rparr>)
       (Some \<lparr>TotalUsageMins = JNumber (Num 1200), DeliveryUsageMins = JUndefined,
              StorageUsageMins = JNumber (Num 7)\<rparr>)) = Num 200
   \<and> DeliveryUsageMins (calculateOverUsage
       (Some \<lparr>usage = Some [\<lparr>name = ''Transcoding'', limit = Some 1000\<rparr>,
                             \<lparr>name = ''Storage'', limit = Some 0\<rparr>]\<rparr>)
       (Some \<lparr>TotalUsageMins = JNumber (Num 1200), DeliveryUsageMins = JUndefined,
              StorageUsageMins = JNumber (Num 7)\<rparr>)) = NaN"
  using missing_usage_is_NaN
    [of "Some \<lparr>usage = Some [\<lparr>name = ''Transcoding'', limit = Some 1000\<rparr>,
                              \<lparr>name = ''Storage'', limit = Some 0\<rparr>]\<rparr>"
        "\<lparr>TotalUsageMins = JNumber (Num 1200), DeliveryUsageMins = JUndefined,
              StorageUsageMins = JNumber (Num 7)\<rparr>" 1200 0 7]
  by (simp add: scan_eval)

section \<open>Idempotence of the update\<close>

text \<open>
  \<^bold>\<open>C4\<close>: for one row, the loop reads the cache at the key of the row and then replaces
  the entry by the fetched row when there is one and creates it when there is none, with
  the same cache as the result either way. So when two runs of the update endpoint fetch
  the same rows, the cache after the second run, started from the cache the first run
  left, is the cache after the first run. After a run the cache holds, under the key of every fetched row, a fetched row with
  that id exactly as fetched (tagged with its kind), and every other key is untouched.
\<close>

theorem sync_idempotent:
  assumes "fetchPhase e1 q1 = (es1, Inr rows)" and "fetchPhase e2 q2 = (es2, Inr rows)"
  shows "fst (snd (post_update e2 q2 (fst (snd (post_update e1 q1 s)))))
           = fst (snd (post_update e1 q1 s))
       \<and> (\<forall>r \<in> set rows. \<exists>r' \<in> set rows. row_id r' = row_id r
             \<and> fst (snd (post_update e1 q1 s)) (''usage/'' @ row_id r) = Some \<lparr>kind = ''usage'', row = r'\<rparr>)
       \<and> (\<forall>k. k \<notin> (\<lambda>r. ''usage/'' @ row_id r) ` set rows \<longrightarrow>
             fst (snd (post_update e1 q1 s)) k = s k)
       \<and> storeUsage [r0] s0 =
           (if s0 (''usage/'' @ row_id r0) = None
            then ([StoreGet (''usage/'' @ row_id r0), StoreCreate \<lparr>kind = ''usage'', row = r0\<rparr>],
                  s0(''usage/'' @ row_id r0 \<mapsto> \<lparr>kind = ''usage'', row = r0\<rparr>))
            else ([StoreGet (''usage/'' @ row_id r0), StoreReplace \<lparr>kind = ''usage'', row = r0\<rparr>],
                  s0(''usage/'' @ row_id r0 \<mapsto> \<lparr>kind = ''usage'', row = r0\<rparr>)))"
proof -
  let ?s1 = "fst (snd (post_update e1 q1 s))"
  have s1: "?s1 = snd (storeUsage rows s)"
    using assms(1) by (rule post_update_store)
  have "fst (snd (post_update e2 q2 ?s1)) = snd (storeUsage rows ?s1)"
    using assms(2) by (rule post_update_store)
  then have "fst (snd (post_update e2 q2 ?s1)) = ?s1"
    by (simp add: s1 storeUsage_idem)
  with storeUsage_fresh [of _ rows s] storeUsage_other [of _ rows s] storeUsage_one [of r0 s0]
  show ?thesis unfolding s1 by blast
qed

theorem sync_idempotent_witness:
  "fst (snd (post_update
       \<lparr>now = 1700000000000, jan2020 = 1577836800000, reportUsage = Inr ''ok'',
        db_usage_find = (\<lambda>l ord rep. Inr []),
        usageHistory = (\<lambda>f t rep. Inr [\<lparr>row_id = ''d1'', date = 1690000000000, others = []\<rparr>,
                                         \<lparr>row_id = ''d2'', date = 1690086400000, others = []\<rparr>]),
        cachedUsageHistory = (\<lambda>f t rep. Inr []),
        getIngest = Inr [], fetch = (\<lambda>b f t u a. Inr None), token_id = ''admin''\<rparr>
       \<lparr>fromTime = None, toTime = None, newUsageReport = None, userId = None\<rparr>
       (fst (snd (post_update
       \<lparr>now = 1700000000000, jan2020 = 1577836800000, reportUsage = Inr ''ok'',
        db_usage_find = (\<lambda>l ord rep. Inr []),
        usageHistory = (\<lambda>f t rep. Inr [\<lparr>row_id = ''d1'', date = 1690000000000, others = []\<rparr>,
                                         \<lparr>row_id = ''d2'', date = 1690086400000, others = []\<rparr>]),
        cachedUsageHistory = (\<lambda>f t rep. Inr []),
        getIngest = Inr [], fetch = (\<lambda>b f t u a. Inr None), token_id = ''admin''\<rparr>
       \<lparr>fromTime = None, toTime = None, newUsageReport = None, userId = None\<rparr>
       Map.empty)))))
   = fst (snd (post_update
       \<lparr>now = 1700000000000, jan2020 = 1577836800000, reportUsage = Inr ''ok'',
        db_usage_find = (\<lambda>l ord rep. Inr []),
        usageHistory = (\<lambda>f t rep. Inr [\<lparr>row_id = ''d1'', date = 1690000000000, others = []\<rparr>,
                                         \<lparr>row_id = ''d2'', date = 1690086400000, others = []\<rparr>]),
        cachedUsageHistory = (\<lambda>f t rep. Inr []),
        getIngest = Inr [], fetch = (\<lambda>b f t u a. Inr None), token_id = ''admin''\<rparr>
       \<lparr>fromTime = None, toTime = None, newUsageReport = None, userId = None\<rparr>
       Map.empty))"
  using sync_idempotent
    [where ?e1.0 = "\<lparr>now = 1700000000000, jan2020 = 1577836800000, reportUsage = Inr ''ok'',
        db_usage_find = (\<lambda>l ord rep. Inr []),
        usageHistory = (\<lambda>f t rep. Inr [\<lparr>row_id = ''d1'', date = 1690000000000, others = []\<rparr>,
                                         \<lparr>row_id = ''d2'', date = 1690086400000, others = []\<rparr>]),
        cachedUsageHistory = (\<lambda>f t rep. Inr []),
        getIngest = Inr [], fetch = (\<lambda>b f t u a. Inr None), token_id = ''admin''\<rparr>"
      and ?e2.0 = "\<lparr>now = 1700000000000, jan2020 = 1577836800000, reportUsage = Inr ''ok'',
        db_usage_find = (\<lambda>l ord rep. Inr []),
        usageHistory = (\<lambda>f t rep. Inr [\<lparr>row_id = ''d1'', date = 1690000000000, others = []\<rparr>,
                                         \<lparr>row_id = ''d2'', date = 1690086400000, others = []\<rparr>]),
        cachedUsageHistory = (\<lambda>f t rep. Inr []),
        getIngest = Inr [], fetch = (\<lambda>b f t u a. Inr None), token_id = ''admin''\<rparr>"
      and ?q1.0 = "\<lparr>fromTime = None, toTime = None, newUsageReport = None, userId = None\<rparr>"
      and ?q2.0 = "\<lparr>fromTime = None, toTime = None, newUsageReport = None, userId = None\<rparr>"
      and rows = "[\<lparr>row_id = ''d1'', date = 1690000000000, others = []\<rparr>,
                   \<lparr>row_id = ''d2'', date = 1690086400000, others = []\<rparr>]"
      and ?es1.0 = "[CallDbUsageFind 1 ''data->>'date' DESC'' True,
                     CallUsageHistory (TNum 1577836800000) (TNum 1700000000000) True]"
      and ?es2.0 = "[CallDbUsageFind 1 ''data->>'date' DESC'' True,
                     CallUsageHistory (TNum 1577836800000) (TNum 1700000000000) True]"
      and s = Map.empty]
  by (simp add: fetchPhase_def reportPhase_def resolveFrom_def resolveTo_def ofQuery_def
      andThen_simps ret_def call_def)

section \<open>The window of the update\<close>

text \<open>
  \<^bold>\<open>C3\<close>: in the update endpoint, once the report block is through, a \<^verbatim>\<open>fromTime\<close> the
  caller gave is passed to \<^verbatim>\<open>db.stream.usageHistory\<close> as it is. Without one (the
  parameter is missing or empty) the handler asks \<^verbatim>\<open>db.usage.find\<close> for one row, ordered
  by \<^verbatim>\<open>data->>'date' DESC\<close>, replica allowed, and passes the \<^verbatim>\<open>date\<close> of the row it gets,
  or the start of January 2020 when it gets none. The upper bound \<open>T\<close> is the
  \<^verbatim>\<open>toTime\<close> the caller gave, or the current time without one.
\<close>

theorem update_window:
  assumes "reportPhase e q = (es0, Inr ())"
    and "T = (case toTime q of None \<Rightarrow> TNum (now e)
              | Some t \<Rightarrow> if t = [] then TNum (now e) else TStr t)"
  shows "(fromTime q = Some f \<and> f \<noteq> [] \<longrightarrow>
            (\<exists>rest. fst (post_update e q s) = es0 @ [CallUsageHistory (TStr f) T True] @ rest))
       \<and> ((fromTime q = None \<or> fromTime q = Some [])
            \<and> db_usage_find e 1 ''data->>'date' DESC'' True = Inr (r # rs) \<longrightarrow>
            (\<exists>rest. fst (post_update e q s) =
               es0 @ [CallDbUsageFind 1 ''data->>'date' DESC'' True,
                      CallUsageHistory (TNum (date r)) T True] @ rest))
       \<and> ((fromTime q = None \<or> fromTime q = Some [])
            \<and> db_usage_find e 1 ''data->>'date' DESC'' True = Inr [] \<longrightarrow>
            (\<exists>rest. fst (post_update e q s) =
               es0 @ [CallDbUsageFind 1 ''data->>'date' DESC'' True,
                      CallUsageHistory (TNum (jan2020 e)) T True] @ rest))"
proof -
  have T: "T = resolveTo e (ofQuery (toTime q))"
    using assms(2) by (simp add: resolveTo_ofQuery)
  have a: "\<exists>rest. fst (post_update e q s) = es0 @ [CallUsageHistory (TStr f) T True] @ rest"
    if "fromTime q = Some f" "f \<noteq> []"
  proof -
    from that have "resolveFrom e (ofQuery (fromTime q)) = ([], Inr (TStr f))"
      by (simp add: resolveFrom_given ofQuery_def)
    from fetchPhase_events [OF assms(1) this] post_update_events [of e q s] T
    show ?thesis by auto
  qed
  have b: "\<exists>rest. fst (post_update e q s) =
               es0 @ [CallDbUsageFind 1 ''data->>'date' DESC'' True,
                      CallUsageHistory (case rows of [] \<Rightarrow> TNum (jan2020 e) | r # _ \<Rightarrow> TNum (date r)) T True] @ rest"
    if "fromTime q = None \<or> fromTime q = Some []"
      and "db_usage_find e 1 ''data->>'date' DESC'' True = Inr rows" for rows
  proof -
    from that(1) have "\<not> truthy (ofQuery (fromTime q))"
      by (auto simp: truthy_ofQuery)
    from fetchPhase_events [OF assms(1) resolveFrom_watermark [OF this that(2)]]
      post_update_events [of e q s] T
    show ?thesis by auto
  qed
  from a b [of "r # rs"] b [of "[]"] show ?thesis by simp
qed

theorem update_window_witness:
  "(\<exists>rest. fst (post_update
       \<lparr>now = 1700000000000, jan2020 = 1577836800000, reportUsage = Inr ''ok'',
        db_usage_find = (\<lambda>l ord rep. Inr [\<lparr>row_id = ''d1'', date = 1690000000000, others = []\<rparr>]),
        usageHistory = (\<lambda>f t rep. Inr []),
        cachedUsageHistory = (\<lambda>f t rep. Inr []),
        getIngest = Inr [], fetch = (\<lambda>b f t u a. Inr None), token_id = ''admin''\<rparr>
       \<lparr>fromTime = None, toTime = None, newUsageReport = None, userId = None\<rparr>
       Map.empty)
     = [] @ [CallDbUsageFind 1 ''data->>'date' DESC'' True,
             CallUsageHistory (TNum 1690000000000) (TNum 1700000000000) True] @ rest)"
  using update_window
    [where e = "\<lparr>now = 1700000000000, jan2020 = 1577836800000, reportUsage = Inr ''ok'',
        db_usage_find = (\<lambda>l ord rep. Inr [\<lparr>row_id = ''d1'', date = 1690000000000, others = []\<rparr>]),
        usageHistory = (\<lambda>f t rep. Inr []),
        cachedUsageHistory = (\<lambda>f t rep. Inr []),
        getIngest = Inr [], fetch = (\<lambda>b f t u a. Inr None), token_id = ''admin''\<rparr>"
      and q = "\<lparr>fromTime = None, toTime = None, newUsageReport = None, userId = None\<rparr>"
      and ?es0.0 = "[]" and T = "TNum 1700000000000" and s = Map.empty
      and r = "\<lparr>row_id = ''d1'', date = 1690000000000, others = []\<rparr>" and rs = "[]"
      and f = "''x''"]
  by (simp add: reportPhase_def ret_def)

section \<open>A plan without a limit\<close>

text \<open>
  \<^bold>\<open>C5\<close>: when the scan leaves the limit of a metric undefined, nothing is subtracted from
  the usage of that metric: the over-usage is \<^verbatim>\<open>Math.max(usage, 0)\<close>, which for a usage
  \<open>x \<ge> 0\<close> is \<open>x\<close> itself. So a usage of 500 without limits is an over-usage of 500.
\<close>

theorem missing_limit_full_overage:
  "(transcoding (scanLimits p) = None \<longrightarrow>
      TotalUsageMins (calculateOverUsage p u) = math_max (toNumber (optChain u TotalUsageMins)) (Num 0))
   \<and> (streaming (scanLimits p) = None \<longrightarrow>
      DeliveryUsageMins (calculateOverUsage p u) = math_max (toNumber (optChain u DeliveryUsageMins)) (Num 0))
   \<and> (storage (scanLimits p) = None \<longrightarrow>
      StorageUsageMins (calculateOverUsage p u) = math_max (toNumber (optChain u StorageUsageMins)) (Num 0))
   \<and> (transcoding (scanLimits p) = None \<and> TotalUsageMins a = JNumber (Num x) \<and> 0 \<le> x \<longrightarrow>
      TotalUsageMins (calculateOverUsage p (Some a)) = Num x)
   \<and> (streaming (scanLimits p) = None \<and> DeliveryUsageMins a = JNumber (Num x) \<and> 0 \<le> x \<longrightarrow>
      DeliveryUsageMins (calculateOverUsage p (Some a)) = Num x)
   \<and> (storage (scanLimits p) = None \<and> StorageUsageMins a = JNumber (Num x) \<and> 0 \<le> x \<longrightarrow>
      StorageUsageMins (calculateOverUsage p (Some a)) = Num x)"
  by (simp add: over_fields optChain_simps num_sub_zero)

theorem missing_limit_full_overage_witness:
  "scanLimits (Some \<lparr>usage = Some []\<rparr>) = noLimits
   \<and> TotalUsageMins (calculateOverUsage (Some \<lparr>usage = Some []\<rparr>)
        (Some \<lparr>TotalUsageMins = JNumber (Num 500), DeliveryUsageMins = JNumber (Num 0),
               StorageUsageMins = JNumber (Num 0)\<rparr>)) = Num 500"
  using missing_limit_full_overage
    [of "Some \<lparr>usage = Some []\<rparr>"
        "Some \<lparr>TotalUsageMins = JNumber (Num 500), DeliveryUsageMins = JNumber (Num 0),
               StorageUsageMins = JNumber (Num 0)\<rparr>"
        "\<lparr>TotalUsageMins = JNumber (Num 500), DeliveryUsageMins = JNumber (Num 0),
               StorageUsageMins = JNumber (Num 0)\<rparr>" 500]
  by (simp add: scanLimits_def noLimits_def optChain_simps)

section \<open>Percentages and the zero limit\<close>

text \<open>
  \<^bold>\<open>C6\<close>: for each metric, \<^verbatim>\<open>getUsagePercentageOfLimit\<close> returns exactly 0 when the limit
  is undefined or 0, whatever the usage is; with a limit \<open>l \<noteq> 0\<close> it returns
  \<^verbatim>\<open>Math.max((usage / l) * 100, 0)\<close>, which for a usage that is a number \<open>x\<close> is the
  finite number \<open>max (x / l * 100) 0\<close>. No division by zero takes place.
\<close>

theorem percentage_zero_guard:
  "((transcoding (scanLimits p) = None \<or> transcoding (scanLimits p) = Some 0) \<longrightarrow>
       TotalUsageMins (getUsagePercentageOfLimit p u) = Num 0)
   \<and> ((streaming (scanLimits p) = None \<or> streaming (scanLimits p) = Some 0) \<longrightarrow>
       DeliveryUsageMins (getUsagePercentageOfLimit p u) = Num 0)
   \<and> ((storage (scanLimits p) = None \<or> storage (scanLimits p) = Some 0) \<longrightarrow>
       StorageUsageMins (getUsagePercentageOfLimit p u) = Num 0)
   \<and> (transcoding (scanLimits p) = Some l \<and> l \<noteq> 0 \<longrightarrow>
       TotalUsageMins (getUsagePercentageOfLimit p u) =
         math_max (num_mul (num_div (toNumber (optChain u TotalUsageMins)) (Num l)) (Num 100)) (Num 0)
       \<and> (optChain u TotalUsageMins = JNumber (Num x) \<longrightarrow>
            TotalUsageMins (getUsagePercentageOfLimit p u) = Num (max (x / l * 100) 0)))
   \<and> (streaming (scanLimits p) = Some l \<and> l \<noteq> 0 \<longrightarrow>
       DeliveryUsageMins (getUsagePercentageOfLimit p u) =
         math_max (num_mul (num_div (toNumber (optChain u DeliveryUsageMins)) (Num l)) (Num 100)) (Num 0)
       \<and> (optChain u DeliveryUsageMins = JNumber (Num x) \<longrightarrow>
            DeliveryUsageMins (getUsagePercentageOfLimit p u) = Num (max (x / l * 100) 0)))
   \<and> (storage (scanLimits p) = Some l \<and> l \<noteq> 0 \<longrightarrow>
       StorageUsageMins (getUsagePercentageOfLimit p u) =
         math_max (num_mul (num_div (toNumber (optChain u StorageUsageMins)) (Num l)) (Num 100)) (Num 0)
       \<and> (optChain u StorageUsageMins = JNumber (Num x) \<longrightarrow>
            StorageUsageMins (getUsagePercentageOfLimit p u) = Num (max (x / l * 100) 0)))"
  by (auto simp: pct_fields percentOf_zero percentOf_nonzero percentOf_num)

theorem percentage_zero_guard_witness:
  "getUsagePercentageOfLimit
       (Some \<lparr>usage = Some [\<lparr>name = ''Transcoding'', limit = Some 1000\<rparr>,
                             \<lparr>name = ''Storage'', limit = Some 0\<rparr>]\<rparr>)
       (Some \<lparr>TotalUsageMins = JNumber (Num 1200), DeliveryUsageMins = JNumber (Num 30),
              StorageUsageMins = JNumber (Num 7)\<rparr>)
     = \<lparr>TotalUsageMins = Num 120, DeliveryUsageMins = Num 0, StorageUsageMins = Num 0\<rparr>"
  using percentage_zero_guard
    [of "Some \<lparr>usage = Some [\<lparr>name = ''Transcoding'', limit = Some 1000\<rparr>,
                              \<lparr>name = ''Storage'', limit = Some 0\<rparr>]\<rparr>"
        "Some \<lparr>TotalUsageMins = JNumber (Num 1200), DeliveryUsageMins = JNumber (Num 30),
              StorageUsageMins = JNumber (Num 7)\<rparr>" 1000 1200]
  by (simp add: scan_eval optChain_simps usageMins.equality)

section \<open>The scan of the line items\<close>

text \<open>
  \<^bold>\<open>C7\<close>: the scan compares names ignoring case. The limit it resolves for
  "transcoding", "delivery" (kept as \<open>streaming\<close>) and "storage" is the limit of the last
  line item with that name, and undefined when no line item has it; line items with other
  names change nothing. A missing product and a product without line items give three
  undefined limits.
\<close>

theorem scan_last_wins:
  "transcoding (scanLimits (Some \<lparr>usage = Some items\<rparr>)) =
     (if filter (\<lambda>i. eqIgnoreCase (name i) ''transcoding'') items = [] then None
      else limit (last (filter (\<lambda>i. eqIgnoreCase (name i) ''transcoding'') items)))
   \<and> streaming (scanLimits (Some \<lparr>usage = Some items\<rparr>)) =
     (if filter (\<lambda>i. eqIgnoreCase (name i) ''delivery'') items = [] then None
      else limit (last (filter (\<lambda>i. eqIgnoreCase (name i) ''delivery'') items)))
   \<and> storage (scanLimits (Some \<lparr>usage = Some items\<rparr>)) =
     (if filter (\<lambda>i. eqIgnoreCase (name i) ''storage'') items = [] then None
      else limit (last (filter (\<lambda>i. eqIgnoreCase (name i) ''storage'') items)))
   \<and> scanLimits None = noLimits
   \<and> scanLimits (Some \<lparr>usage = None\<rparr>) = noLimits"
  by (simp add: scanLimits_def fold_assignLimit noLimits_def)

theorem scan_last_wins_witness:
  "scanLimits (Some \<lparr>usage = Some [\<lparr>name = ''Transcoding'', limit = Some 1\<rparr>,
                                     \<lparr>name = ''bandwidth'', limit = Some 7\<rparr>,
                                     \<lparr>name = ''STORAGE'', limit = Some 3\<rparr>,
                                     \<lparr>name = ''tRANSCODING'', limit = Some 2\<rparr>]\<rparr>)
     = \<lparr>transcoding = Some 2, streaming = None, storage = Some 3\<rparr>"
  using scan_last_wins [of "[\<lparr>name = ''Transcoding'', limit = Some 1\<rparr>,
                                     \<lparr>name = ''bandwidth'', limit = Some 7\<rparr>,
                                     \<lparr>name = ''STORAGE'', limit = Some 3\<rparr>,
                                     \<lparr>name = ''tRANSCODING'', limit = Some 2\<rparr>]"]
  by (simp add: match_names [symmetric] toLowerCase_def toLowerChar_def limits.equality)

section \<open>Over-usage is never negative\<close>

text \<open>
  \<^bold>\<open>C8\<close>: when the three usage values are numbers \<open>\<ge> 0\<close> and the limits that the plan
  declares are \<open>\<ge> 0\<close>, every field of the over-usage report is
  \<open>max (usage - limit) 0\<close>, with 0 for an undefined limit, and is \<open>\<ge> 0\<close>.
\<close>

theorem overage_nonneg:
  assumes "u = \<lparr>TotalUsageMins = JNumber (Num a), DeliveryUsageMins = JNumber (Num b),
                 StorageUsageMins = JNumber (Num c)\<rparr>"
    and "0 \<le> a" "0 \<le> b" "0 \<le> c"
    and "\<forall>l. transcoding (scanLimits p) = Some l \<longrightarrow> 0 \<le> l"
    and "\<forall>l. streaming (scanLimits p) = Some l \<longrightarrow> 0 \<le> l"
    and "\<forall>l. storage (scanLimits p) = Some l \<longrightarrow> 0 \<le> l"
  shows "calculateOverUsage p (Some u) =
           \<lparr>TotalUsageMins =
              Num (max (a - (case transcoding (scanLimits p) of None \<Rightarrow> 0 | Some l \<Rightarrow> l)) 0),
            DeliveryUsageMins =
              Num (max (b - (case streaming (scanLimits p) of None \<Rightarrow> 0 | Some l \<Rightarrow> l)) 0),
            StorageUsageMins =
              Num (max (c - (case storage (scanLimits p) of None \<Rightarrow> 0 | Some l \<Rightarrow> l)) 0)\<rparr>
       \<and> 0 \<le> max (a - (case transcoding (scanLimits p) of None \<Rightarrow> 0 | Some l \<Rightarrow> l)) 0
       \<and> 0 \<le> max (b - (case streaming (scanLimits p) of None \<Rightarrow> 0 | Some l \<Rightarrow> l)) 0
       \<and> 0 \<le> max (c - (case storage (scanLimits p) of None \<Rightarrow> 0 | Some l \<Rightarrow> l)) 0"
  using assms(1) by (simp add: calculateOverUsage_def overUsageOf_def optChain_simps orZero_eq)

theorem overage_nonneg_witness:
  "calculateOverUsage
       (Some \<lparr>usage = Some [\<lparr>name = ''Transcoding'', limit = Some 1000\<rparr>,
                             \<lparr>name = ''Storage'', limit = Some 0\<rparr>]\<rparr>)
       (Some \<lparr>TotalUsageMins = JNumber (Num 1200), DeliveryUsageMins = JNumber (Num 30),
              StorageUsageMins = JNumber (Num 7)\<rparr>)
     = \<lparr>TotalUsageMins = Num 200, DeliveryUsageMins = Num 30, StorageUsageMins = Num 7\<rparr>"
  using overage_nonneg
    [of "\<lparr>TotalUsageMins = JNumber (Num 1200), DeliveryUsageMins = JNumber (Num 30),
              StorageUsageMins = JNumber (Num 7)\<rparr>" 1200 30 7
        "Some \<lparr>usage = Some [\<lparr>name = ''Transcoding'', limit = Some 1000\<rparr>,
                              \<lparr>name = ''Storage'', limit = Some 0\<rparr>]\<rparr>"]
  by (simp add: scan_eval)

section \<open>The default window of the query endpoints\<close>



section \<open>The report does not replace the sync\<close>

text \<open>
  \<^bold>\<open>C10\<close>: with \<^verbatim>\<open>newUsageReport=true\<close>, after \<^verbatim>\<open>reportUsage\<close> has answered and its
  result was handed to the response, the update endpoint goes on as it does without the
  report. It resolves the window: the lower bound is the \<^verbatim>\<open>fromTime\<close> of the caller, or
  else, after asking \<^verbatim>\<open>db.usage.find\<close>, the \<^verbatim>\<open>date\<close> of the row found or the start of
  January 2020; the upper bound \<open>T\<close> is the \<^verbatim>\<open>toTime\<close> of the caller or the current time.
  It fetches the usage history of that window, reads and writes the cache once for every
  fetched row, and hands the history to the response in a second \<^verbatim>\<open>res.json\<close>, at which
  the response throws: the handler ends with that error, after all the writes.
\<close>

theorem report_then_sync:
  assumes "newUsageReport q = Some ''true''"
    and "reportUsage e = Inr res"
    and "T = (case toTime q of None \<Rightarrow> TNum (now e)
              | Some t \<Rightarrow> if t = [] then TNum (now e) else TStr t)"
  shows "(fromTime q = Some f \<and> f \<noteq> [] \<and> usageHistory e (TStr f) T True = Inr rows \<longrightarrow>
            post_update e q s =
              ([CallReportUsage, ResStatus 200, ResJson (BReport res),
                CallUsageHistory (TStr f) T True]
                 @ fst (storeUsage rows s)
                 @ [ResStatus 200, ResJson (BHistory rows)],
               snd (storeUsage rows s), Some HeadersSent))
       \<and> ((fromTime q = None \<or> fromTime q = Some [])
            \<and> db_usage_find e 1 ''data->>'date' DESC'' True = Inr (r # rs)
            \<and> usageHistory e (TNum (date r)) T True = Inr rows \<longrightarrow>
            post_update e q s =
              ([CallReportUsage, ResStatus 200, ResJson (BReport res),
                CallDbUsageFind 1 ''data->>'date' DESC'' True,
                CallUsageHistory (TNum (date r)) T True]
                 @ fst (storeUsage rows s)
                 @ [ResStatus 200, ResJson (BHistory rows)],
               snd (storeUsage rows s), Some HeadersSent))
       \<and> ((fromTime q = None \<or> fromTime q = Some [])
            \<and> db_usage_find e 1 ''data->>'date' DESC'' True = Inr []
            \<and> usageHistory e (TNum (jan2020 e)) T True = Inr rows \<longrightarrow>
            post_update e q s =
              ([CallReportUsage, ResStatus 200, ResJson (BReport res),
                CallDbUsageFind 1 ''data->>'date' DESC'' True,
                CallUsageHistory (TNum (jan2020 e)) T True]
                 @ fst (storeUsage rows s)
                 @ [ResStatus 200, ResJson (BHistory rows)],
               snd (storeUsage rows s), Some HeadersSent))
       \<and> length (filter (\<lambda>ev. \<exists>d. ev = StoreReplace d \<or> ev = StoreCreate d)
                    (fst (storeUsage rows s))) = length rows"
proof -
  have T: "T = resolveTo e (ofQuery (toTime q))"
    using assms(3) by (simp add: resolveTo_ofQuery)
  have rp: "reportPhase e q = ([CallReportUsage, ResStatus 200, ResJson (BReport res)], Inr ())"
    using assms(1,2) by (simp add: reportPhase_def call_def andThen_simps emit_def)
  have run: "post_update e q s =
              ([CallReportUsage, ResStatus 200, ResJson (BReport res)] @ fs
                 @ [CallUsageHistory g T True]
                 @ fst (storeUsage rows s)
                 @ [ResStatus 200, ResJson (BHistory rows)],
               snd (storeUsage rows s), Some HeadersSent)"
    if "resolveFrom e (ofQuery (fromTime q)) = (fs, Inr g)"
      and "usageHistory e g T True = Inr rows" for fs g
    using fetchPhase_events [OF rp that(1)] that(2)
    by (simp add: T post_update_def res_json_def headersSent_def case_prod_beta)
  have a: "resolveFrom e (ofQuery (fromTime q)) = ([], Inr (TStr f))"
    if "fromTime q = Some f" "f \<noteq> []"
    using that by (simp add: resolveFrom_given ofQuery_def)
  have b: "resolveFrom e (ofQuery (fromTime q)) =
             ([CallDbUsageFind 1 ''data->>'date' DESC'' True],
              Inr (case found of [] \<Rightarrow> TNum (jan2020 e) | r # _ \<Rightarrow> TNum (date r)))"
    if "fromTime q = None \<or> fromTime q = Some []"
      and "db_usage_find e 1 ''data->>'date' DESC'' True = Inr found" for found
  proof -
    from that(1) have "\<not> truthy (ofQuery (fromTime q))"
      by (auto simp: truthy_ofQuery)
    from resolveFrom_watermark [OF this that(2)] show ?thesis .
  qed
  from run [OF a] run [OF b [of "r # rs"]] run [OF b [of "[]"]] storeUsage_writes [of rows s]
  show ?thesis by simp
qed

theorem report_then_sync_witness:
  "post_update
       \<lparr>now = 1700000000000, jan2020 = 1577836800000, reportUsage = Inr ''ok'',
        db_usage_find = (\<lambda>l ord rep. Inr [\<lparr>row_id = ''d1'', date = 1690000000000, others = []\<rparr>]),
        usageHistory = (\<lambda>f t rep. Inr [\<lparr>row_id = ''d1'', date = 1690000000000, others = []\<rparr>,
                                         \<lparr>row_id = ''d2'', date = 1690086400000, others = []\<rparr>]),
        cachedUsageHistory = (\<lambda>f t rep. Inr []),
        getIngest = Inr [], fetch = (\<lambda>b f t u a. Inr None), token_id = ''admin''\<rparr>
       \<lparr>fromTime = None, toTime = None, newUsageReport = Some ''true'', userId = None\<rparr>
       [''usage/d1'' \<mapsto>
          \<lparr>kind = ''usage'',
           row = \<lparr>row_id = ''d1'', date = 1690000000000, others = [(''old'', JNull)]\<rparr>\<rparr>]
   = ([CallReportUsage, ResStatus 200, ResJson (BReport ''ok''),
       CallDbUsageFind 1 ''data->>'date' DESC'' True,
       CallUsageHistory (TNum 1690000000000) (TNum 1700000000000) True,
       StoreGet ''usage/d1'',
       StoreReplace \<lparr>kind = ''usage'', row = \<lparr>row_id = ''d1'', date = 1690000000000, others = []\<rparr>\<rparr>,
       StoreGet ''usage/d2'',
       StoreCreate \<lparr>kind = ''usage'', row = \<lparr>row_id = ''d2'', date = 1690086400000, others = []\<rparr>\<rparr>,
       ResStatus 200,
       ResJson (BHistory [\<lparr>row_id = ''d1'', date = 1690000000000, others = []\<rparr>,
                          \<lparr>row_id = ''d2'', date = 1690086400000, others = []\<rparr>])],
      [''usage/d1'' \<mapsto> \<lparr>kind = ''usage'', row = \<lparr>row_id = ''d1'', date = 1690000000000, others = []\<rparr>\<rparr>,
       ''usage/d2'' \<mapsto> \<lparr>kind = ''usage'', row = \<lparr>row_id = ''d2'', date = 1690086400000, others = []\<rparr>\<rparr>],
      Some HeadersSent)"
  using report_then_sync
    [where e = "\<lparr>now = 1700000000000, jan2020 = 1577836800000, reportUsage = Inr ''ok'',
        db_usage_find = (\<lambda>l ord rep. Inr [\<lparr>row_id = ''d1'', date = 1690000000000, others = []\<rparr>]),
        usageHistory = (\<lambda>f t rep. Inr [\<lparr>row_id = ''d1'', date = 1690000000000, others = []\<rparr>,
                                         \<lparr>row_id = ''d2'', date = 1690086400000, others = []\<rparr>]),
        cachedUsageHistory = (\<lambda>f t rep. Inr []),
        getIngest = Inr [], fetch = (\<lambda>b f t u a. Inr None), token_id = ''admin''\<rparr>"
      and q = "\<lparr>fromTime = None, toTime = None, newUsageReport = Some ''true'', userId = None\<rparr>"
      and res = "''ok''" and T = "TNum 1700000000000" and f = "''x''"
      and r = "\<lparr>row_id = ''d1'', date = 1690000000000, others = []\<rparr>" and rs = "[]"
      and rows = "[\<lparr>row_id = ''d1'', date = 1690000000000, others = []\<rparr>,
                   \<lparr>row_id = ''d2'', date = 1690086400000, others = []\<rparr>]"
      and s = "[''usage/d1'' \<mapsto>
          \<lparr>kind = ''usage'',
           row = \<lparr>row_id = ''d1'', date = 1690000000000, others = [(''old'', JNull)]\<rparr>\<rparr>]"]
  by (simp add: Let_def store_get_def store_create_def store_replace_def store_key_def)

end
